theory Spec2Isabelle
  imports Main "HOL-Library.AList"
begin

section \<open>The \<open>aicode\<close> package\<close>

text \<open>
  The repository is one file, \<open>src/aicode/__init__.py\<close>:
  \<^verbatim>\<open>
   1  """`aicode` package."""
   4  from collections.abc import Sequence
   5  from importlib.metadata import version
   6  from typing import LiteralString
   9  __all__: Sequence[LiteralString] = ('__version__',)
  12  __version__: str = version(distribution_name='aiCode')
  \<close>
  Executing the module body is a sequence of six statements over the module's namespace;
  three of them ask the import system for a module of the standard library, two are
  annotated assignments, and the last one calls a function of the standard library, which
  reads the metadata of the installed distributions and may raise.
\<close>

subsection \<open>Values and the module namespace\<close>

text \<open>
  The objects the module handles: \<open>str\<close> objects, tuples, objects that an import
  statement fetched from another module (named by that module and the attribute), objects
  of the builtins, the result of subscripting one object with another
  (\<open>Sequence[LiteralString]\<close>), and dicts with their keys in insertion order.
\<close>

datatype pyval =
    Str string
  | Tuple "pyval list"
  | Imported string string
  | Builtin string
  | Subscript pyval pyval
  | Dict "(string \<times> pyval) list"

text \<open>
  A namespace is Python's module dictionary: identifiers to objects. The binding of
  \<open>__annotations__\<close> is kept apart, as the dict it is bound to: the import system hands
  the module body a namespace in which that name is unbound (a new module) or bound to the
  dict an earlier execution of the body left (a reload). \<open>names\<close> holds every other
  binding and is not consulted for that name.
\<close>

record namespace =
  names :: "string \<rightharpoonup> pyval"
  annotations :: "(string \<times> pyval) list option"

definition lookup :: "namespace \<Rightarrow> string \<Rightarrow> pyval option" where
  "lookup g name =
     (if name = ''__annotations__'' then map_option Dict (annotations g) else names g name)"

text \<open>
  Reading a name in the module body looks in the module's namespace first and in the
  builtins next. It is used for \<open>Sequence\<close>, \<open>LiteralString\<close> and \<open>str\<close> only, of which
  the first two are bound by then and the third is a builtin.
\<close>

definition load_name :: "string \<Rightarrow> namespace \<Rightarrow> pyval" where
  "load_name name g = (case lookup g name of Some v \<Rightarrow> v | None \<Rightarrow> Builtin name)"

text \<open>
  A binding statement \<open>name = v\<close>. An annotated one, \<open>name: ann = v\<close>, binds the name and
  then records the annotation, evaluated after the binding, in the dict
  \<open>__annotations__\<close> (under an existing key in place, under a new key at the end). A
  module body with annotations starts by binding \<open>__annotations__\<close> to an empty dict
  unless the name is bound already. This is Python 3.11 to 3.13, the interpreters that
  have \<open>typing.LiteralString\<close> and evaluate annotations when the statement runs.
\<close>

definition store :: "string \<Rightarrow> pyval \<Rightarrow> namespace \<Rightarrow> namespace" where
  "store name v g = g\<lparr>names := (names g)(name \<mapsto> v)\<rparr>"

definition setup_annotations :: "namespace \<Rightarrow> namespace" where
  "setup_annotations g =
     (case annotations g of None \<Rightarrow> g\<lparr>annotations := Some []\<rparr> | Some d \<Rightarrow> g)"

definition ann_assign ::
  "string \<Rightarrow> (namespace \<Rightarrow> pyval) \<Rightarrow> pyval \<Rightarrow> namespace \<Rightarrow> namespace" where
  "ann_assign name ann v g =
     (let g' = store name v g
      in g'\<lparr>annotations := map_option (AList.update name (ann g')) (annotations g')\<rparr>)"

text \<open>
  \<open>from m import name\<close> asks the import system for the module \<open>m\<close> and binds the
  object it holds under \<open>name\<close>. The request is what the module body does outside its
  namespace: the import system loads the module, and every module that one imports, into
  the process-wide \<open>sys.modules\<close> unless it is there already. The requests a process has
  made are kept in a list, oldest first. The three modules asked for belong to the
  standard library of every Python that has \<open>typing.LiteralString\<close>, so the statements do
  not raise.
\<close>

definition from_import ::
  "string \<Rightarrow> string \<Rightarrow> namespace \<times> string list \<Rightarrow> namespace \<times> string list" where
  "from_import m name = (\<lambda>(g, ms). (store name (Imported m name) g, ms @ [m]))"

subsection \<open>The metadata provider\<close>

text \<open>
  \<open>importlib.metadata.version\<close> is not code of this repository. The module body takes
  it as a parameter: a function that, given a distribution name and the state \<open>'w\<close> of
  the world outside the module, returns a version string (\<open>Inr\<close>) or raises an exception
  of type \<open>'e\<close> (\<open>Inl\<close>), and leaves the world in some state.
\<close>

type_synonym ('e, 'w) provider = "string \<Rightarrow> 'w \<Rightarrow> ('e + string) \<times> 'w"

datatype error = PackageNotFoundError string

text \<open>
  Modelled from the spec: the external metadata provider \<open>importlib.metadata.version\<close>,
  whose code is outside the repository. The spec gives its contract: "given a distribution
  name, return a version string or fail with a NotFound error", the name "matching the
  packaging ecosystem's naming rules", reading the installed-package metadata and changing
  nothing. By those rules names are compared after normalisation: letters in lower case,
  every run of \<open>-\<close>, \<open>_\<close> and \<open>.\<close> as one separator. The world is the list of installed
  distributions, recorded name and version, in the order of the search path; the answer is
  the version of the first one whose name matches.
\<close>

definition lower :: "char \<Rightarrow> char" where
  "lower c =
     (case map_of (zip ''ABCDEFGHIJKLMNOPQRSTUVWXYZ'' ''abcdefghijklmnopqrstuvwxyz'') c of
        Some l \<Rightarrow> l
      | None \<Rightarrow> c)"

definition is_sep :: "char \<Rightarrow> bool" where
  "is_sep c = (c = CHR ''-'' \<or> c = CHR ''_'' \<or> c = CHR ''.'')"

fun norm_name :: "bool \<Rightarrow> string \<Rightarrow> string" where
  "norm_name after_sep [] = []"
| "norm_name after_sep (c # cs) =
     (if is_sep c then (if after_sep then norm_name True cs else CHR ''_'' # norm_name True cs)
      else lower c # norm_name False cs)"

definition normalize_name :: "string \<Rightarrow> string" where
  "normalize_name name = norm_name False name"

definition resolve :: "string \<Rightarrow> (string \<times> string) list \<Rightarrow> (string \<times> string) option" where
  "resolve distribution_name dists =
     find (\<lambda>(name, v). normalize_name name = normalize_name distribution_name) dists"

definition version :: "(error, (string \<times> string) list) provider" where
  "version distribution_name dists =
     (case resolve distribution_name dists of
        None \<Rightarrow> (Inl (PackageNotFoundError distribution_name), dists)
      | Some (name, v) \<Rightarrow> (Inr v, dists))"

text \<open>
  To count and name the queries a computation makes, a provider is wrapped so that it
  appends the name it is asked for to a log carried beside the world.
\<close>

definition logged :: "('e, 'w) provider \<Rightarrow> ('e, 'w \<times> string list) provider" where
  "logged provider name = (\<lambda>(w, log).
     case provider name w of (r, w') \<Rightarrow> (r, (w', log @ [name])))"

subsection \<open>The module body\<close>

text \<open>
  The statements of \<open>__init__.py\<close> in order, from the namespace \<open>g0\<close> that the import
  system hands to the module, the requests \<open>ms0\<close> made to the import system so far and
  the world \<open>w0\<close>. The result is the exception raised (\<open>None\<close> when the body ran to its
  end), and the namespace, the requests and the world as the body left them. Line 12
  evaluates its right-hand side first: when the call raises, neither the assignment to
  \<open>__version__\<close> nor its annotation happens. The callee is what line 5 bound to
  \<open>version\<close>, the provider.
\<close>

definition aicode_module ::
  "('e, 'w) provider \<Rightarrow> namespace \<times> string list \<times> 'w
     \<Rightarrow> 'e option \<times> namespace \<times> string list \<times> 'w" where
  "aicode_module provider = (\<lambda>(g0, ms0, w0).
     let g1 = setup_annotations g0;
         g2 = store ''__doc__'' (Str ''`aicode` package.'') g1;
         (g3, ms1) = from_import ''collections.abc'' ''Sequence'' (g2, ms0);
         (g4, ms2) = from_import ''importlib.metadata'' ''version'' (g3, ms1);
         (g5, ms3) = from_import ''typing'' ''LiteralString'' (g4, ms2);
         g6 = ann_assign ''__all__''
                (\<lambda>g. Subscript (load_name ''Sequence'' g) (load_name ''LiteralString'' g))
                (Tuple [Str ''__version__'']) g5
     in case provider ''aiCode'' w0 of
          (Inl e, w1) \<Rightarrow> (Some e, g6, ms3, w1)
        | (Inr v, w1) \<Rightarrow>
            (None, ann_assign ''__version__'' (load_name ''str'') (Str v) g6, ms3, w1))"

subsection \<open>Importing the package and reading the constant\<close>

text \<open>
  A process is the world, the entry of \<open>sys.modules\<close> for \<open>aicode\<close> and the requests
  made to the import system. Python's \<open>import aicode\<close> returns the cached module when
  there is one; otherwise it executes the module body in a fresh namespace, and caches the
  module only if the body did not raise (the import system drops the entry of a module
  whose body raised, and the exception reaches the importer). The attributes the import
  system itself sets on a new module (\<open>__name__\<close>, \<open>__spec__\<close>, ...) are not modelled:
  the fresh namespace is empty.
\<close>

record 'w process =
  world :: 'w
  sys_modules :: "namespace option"
  requests :: "string list"

definition fresh :: namespace where
  "fresh = \<lparr>names = Map.empty, annotations = None\<rparr>"

definition import_aicode :: "('e, 'w) provider \<Rightarrow> 'w process \<Rightarrow> 'e option \<times> 'w process" where
  "import_aicode provider p =
     (case sys_modules p of
        Some g \<Rightarrow> (None, p)
      | None \<Rightarrow>
          (case aicode_module provider (fresh, requests p, world p) of
             (None, g, ms, w) \<Rightarrow> (None, \<lparr>world = w, sys_modules = Some g, requests = ms\<rparr>)
           | (Some e, g, ms, w) \<Rightarrow> (Some e, \<lparr>world = w, sys_modules = None, requests = ms\<rparr>)))"

text \<open>
  Reading \<open>aicode.__version__\<close> and \<open>aicode.__all__\<close>: \<open>None\<close> when there is no module
  or the name is unbound in it.
\<close>

definition read_attr :: "string \<Rightarrow> 'w process \<Rightarrow> pyval option" where
  "read_attr name p = (case sys_modules p of None \<Rightarrow> None | Some g \<Rightarrow> lookup g name)"

definition read_version :: "'w process \<Rightarrow> pyval option" where
  "read_version p = read_attr ''__version__'' p"

text \<open>
  What can happen in a process after that: the package is imported again, the constant is
  read, or something outside the package changes the world (a distribution is installed,
  upgraded or removed). \<open>run\<close> performs a sequence of such events; \<open>externals\<close> is what
  the external changes alone do to the world; \<open>reads\<close> lists what each read returned.
\<close>

datatype 'w event = Import | ReadVersion | External "'w \<Rightarrow> 'w"

fun step :: "('e, 'w) provider \<Rightarrow> 'w event \<Rightarrow> 'w process \<Rightarrow> 'w process" where
  "step provider Import p = snd (import_aicode provider p)"
| "step provider ReadVersion p = p"
| "step provider (External f) p = p\<lparr>world := f (world p)\<rparr>"

fun run :: "('e, 'w) provider \<Rightarrow> 'w event list \<Rightarrow> 'w process \<Rightarrow> 'w process" where
  "run provider [] p = p"
| "run provider (e # es) p = run provider es (step provider e p)"

fun externals :: "'w event list \<Rightarrow> 'w \<Rightarrow> 'w" where
  "externals [] w = w"
| "externals (External f # es) w = externals es (f w)"
| "externals (e # es) w = externals es w"

fun reads :: "('e, 'w) provider \<Rightarrow> 'w event list \<Rightarrow> 'w process \<Rightarrow> pyval option list" where
  "reads provider [] p = []"
| "reads provider (ReadVersion # es) p = read_version p # reads provider es p"
| "reads provider (e # es) p = reads provider es (step provider e p)"

section \<open>Properties\<close>

subsection \<open>The two outcomes of the module body\<close>

text \<open>
  The body either runs to its end, having bound seven names, or raises what the provider
  raised, having bound six. Which one happens, and the namespace it leaves, depend on
  nothing but the namespace it started from and the provider's answer for \<open>aiCode\<close>; the
  world is left as the provider's single call left it; three requests have gone to the
  import system; no other name of the namespace is touched.
\<close>

lemma provider_cases:
  obtains (returns) v w' where "provider ''aiCode'' w = (Inr v, w')"
        | (raises) e w' where "provider ''aiCode'' w = (Inl e, w')"
  by (cases "provider ''aiCode'' w"; cases "fst (provider ''aiCode'' w)") auto

lemma aicode_module_returns:
  assumes "provider ''aiCode'' w = (Inr v, w')"
  shows "aicode_module provider (g, ms, w) =
    (None,
     \<lparr>names = (names g)(''__doc__'' \<mapsto> Str ''`aicode` package.'',
        ''Sequence'' \<mapsto> Imported ''collections.abc'' ''Sequence'',
        ''version'' \<mapsto> Imported ''importlib.metadata'' ''version'',
        ''LiteralString'' \<mapsto> Imported ''typing'' ''LiteralString'',
        ''__all__'' \<mapsto> Tuple [Str ''__version__''],
        ''__version__'' \<mapsto> Str v),
      annotations = Some
        (AList.update ''__version__'' (case names g ''str'' of Some x \<Rightarrow> x | None \<Rightarrow> Builtin ''str'')
          (AList.update ''__all__''
            (Subscript (Imported ''collections.abc'' ''Sequence'') (Imported ''typing'' ''LiteralString''))
            (case annotations g of None \<Rightarrow> [] | Some d \<Rightarrow> d)))\<rparr>,
     ms @ [''collections.abc'', ''importlib.metadata'', ''typing''],
     w')"
  using assms
  by (simp add: aicode_module_def store_def from_import_def ann_assign_def setup_annotations_def
      load_name_def lookup_def Let_def split: option.splits)

lemma aicode_module_raises:
  assumes "provider ''aiCode'' w = (Inl e, w')"
  shows "aicode_module provider (g, ms, w) =
    (Some e,
     \<lparr>names = (names g)(''__doc__'' \<mapsto> Str ''`aicode` package.'',
        ''Sequence'' \<mapsto> Imported ''collections.abc'' ''Sequence'',
        ''version'' \<mapsto> Imported ''importlib.metadata'' ''version'',
        ''LiteralString'' \<mapsto> Imported ''typing'' ''LiteralString'',
        ''__all__'' \<mapsto> Tuple [Str ''__version__'']),
      annotations = Some
        (AList.update ''__all__''
          (Subscript (Imported ''collections.abc'' ''Sequence'') (Imported ''typing'' ''LiteralString''))
          (case annotations g of None \<Rightarrow> [] | Some d \<Rightarrow> d))\<rparr>,
     ms @ [''collections.abc'', ''importlib.metadata'', ''typing''],
     w')"
  using assms
  by (simp add: aicode_module_def store_def from_import_def ann_assign_def setup_annotations_def
      load_name_def lookup_def Let_def split: option.splits)

lemma aicode_module_world:
  "snd (snd (snd (aicode_module provider (g, ms, w)))) = snd (provider ''aiCode'' w)"
proof (cases rule: provider_cases [of provider w])
  case (returns v w')
  then show ?thesis by (simp add: aicode_module_returns [of provider w v w' g ms])
next
  case (raises e w')
  then show ?thesis by (simp add: aicode_module_raises [of provider w e w' g ms])
qed



lemma aicode_module_depends:
  assumes "fst (provider ''aiCode'' w) = fst (provider' ''aiCode'' w')"
  shows "fst (aicode_module provider (g, ms, w)) = fst (aicode_module provider' (g, ms', w')) \<and>
    fst (snd (aicode_module provider (g, ms, w))) = fst (snd (aicode_module provider' (g, ms', w')))"
proof (cases rule: provider_cases [of provider w])
  case (returns v u)
  with assms obtain u' where "provider' ''aiCode'' w' = (Inr v, u')"
    by (cases "provider' ''aiCode'' w'") simp
  with returns show ?thesis
    by (simp add: aicode_module_returns [of provider w v u g ms]
        aicode_module_returns [of provider' w' v u' g ms'])
next
  case (raises e u)
  with assms obtain u' where "provider' ''aiCode'' w' = (Inl e, u')"
    by (cases "provider' ''aiCode'' w'") simp
  with raises show ?thesis
    by (simp add: aicode_module_raises [of provider w e u g ms]
        aicode_module_raises [of provider' w' e u' g ms'])
qed

lemma logged_call:
  "logged provider name (w, log) = (fst (provider name w), (snd (provider name w), log @ [name]))"
  by (simp add: logged_def split: prod.splits)


lemma normalize_aiCode: "normalize_name ''aiCode'' = ''aicode''"
  by (simp add: normalize_name_def is_sep_def lower_def)

lemma version_aiCode:
  "fst (version ''aiCode'' dists) =
     (case map_option snd (find (\<lambda>(name, v). normalize_name name = ''aicode'') dists) of
        None \<Rightarrow> Inl (PackageNotFoundError ''aiCode'')
      | Some v \<Rightarrow> Inr v)"
  by (simp add: version_def resolve_def normalize_aiCode split: option.splits prod.splits)

subsection \<open>Importing the package\<close>

text \<open>
  Importing on a process that has not loaded the package either caches the namespace the
  body built, or raises what the provider raised and caches nothing; importing again
  returns the cached module.
\<close>

lemma import_fresh_returns:
  assumes "provider ''aiCode'' w = (Inr v, w')"
  shows "import_aicode provider \<lparr>world = w, sys_modules = None, requests = ms\<rparr> =
    (None, \<lparr>world = w',
       sys_modules = Some (fst (snd (aicode_module provider (fresh, ms, w)))),
       requests = ms @ [''collections.abc'', ''importlib.metadata'', ''typing'']\<rparr>)"
  using assms aicode_module_returns [of provider w v w' fresh ms]
  by (simp add: import_aicode_def)

lemma import_fresh_raises:
  assumes "provider ''aiCode'' w = (Inl e, w')"
  shows "import_aicode provider \<lparr>world = w, sys_modules = None, requests = ms\<rparr> =
    (Some e, \<lparr>world = w', sys_modules = None,
       requests = ms @ [''collections.abc'', ''importlib.metadata'', ''typing'']\<rparr>)"
  using assms aicode_module_raises [of provider w e w' fresh ms]
  by (simp add: import_aicode_def)

lemma import_fresh:
  "fst (import_aicode provider \<lparr>world = w, sys_modules = None, requests = ms\<rparr>)
     = fst (aicode_module provider (fresh, ms, w))"
  "sys_modules (snd (import_aicode provider \<lparr>world = w, sys_modules = None, requests = ms\<rparr>))
     = (case fst (aicode_module provider (fresh, ms, w)) of
          None \<Rightarrow> Some (fst (snd (aicode_module provider (fresh, ms, w))))
        | Some e \<Rightarrow> None)"
  by (simp_all add: import_aicode_def split: prod.splits option.splits)

lemma import_cached:
  "sys_modules p = Some g \<Longrightarrow> import_aicode provider p = (None, p)"
  by (simp add: import_aicode_def)

lemma import_ok_loaded:
  assumes "import_aicode provider p0 = (None, p)"
  shows "\<exists>g. sys_modules p = Some g"
proof (cases "sys_modules p0")
  case (Some g)
  with assms show ?thesis by (auto simp: import_aicode_def)
next
  case None
  with assms show ?thesis
    by (auto simp: import_aicode_def split: prod.splits option.splits)
qed

subsection \<open>A loaded module stays as it is\<close>

text \<open>
  Once the module is cached, no event changes the cached namespace or asks the import
  system for anything, and the world changes only through what happens outside the
  package.
\<close>

lemma step_loaded:
  assumes "sys_modules p = Some g"
  shows "sys_modules (step provider e p) = Some g"
    and "world (step provider e p) = externals [e] (world p)"
    and "requests (step provider e p) = requests p"
  using assms by (cases e; simp add: import_cached)+

lemma run_loaded:
  assumes "sys_modules p = Some g"
  shows "sys_modules (run provider es p) = Some g \<and>
    world (run provider es p) = externals es (world p) \<and>
    requests (run provider es p) = requests p"
  using assms
proof (induction es arbitrary: p)
  case Nil
  then show ?case by simp
next
  case (Cons e es)
  have loaded: "sys_modules (step provider e p) = Some g"
    using Cons.prems by (rule step_loaded)
  have "world (step provider e p) = externals [e] (world p)"
    using Cons.prems by (rule step_loaded)
  moreover have "requests (step provider e p) = requests p"
    using Cons.prems by (rule step_loaded)
  moreover have "externals es (externals [e] (world p)) = externals (e # es) (world p)"
    by (cases e) simp_all
  ultimately show ?case
    using Cons.IH [OF loaded] by simp
qed

lemma reads_loaded:
  assumes "sys_modules p = Some g"
  shows "set (reads provider es p) \<subseteq> {lookup g ''__version__''}"
  using assms
proof (induction es arbitrary: p)
  case Nil
  then show ?case by simp
next
  case (Cons e es)
  have loaded: "sys_modules (step provider e p) = Some g"
    using Cons.prems by (rule step_loaded)
  show ?case
  proof (cases e)
    case Import
    then show ?thesis using Cons.IH [OF loaded] by simp
  next
    case ReadVersion
    then show ?thesis
      using Cons.IH [OF Cons.prems] Cons.prems by (simp add: read_version_def read_attr_def)
  next
    case (External f)
    then show ?thesis using Cons.IH [OF loaded] by simp
  qed
qed

subsection \<open>Evaluating the model on concrete inputs\<close>

lemmas body_defs = aicode_module_def store_def from_import_def ann_assign_def
  setup_annotations_def load_name_def lookup_def fresh_def Let_def

lemmas version_defs = version_def resolve_def normalize_name_def is_sep_def lower_def

section \<open>The claims\<close>

text \<open>
  C1. Whenever the metadata provider returns a version string for the name \<open>aiCode\<close>,
  importing the package succeeds and binds \<open>__version__\<close> to exactly that string,
  unchanged: reading \<open>aicode.__version__\<close> afterwards gives the \<open>str\<close> the provider
  returned. This holds for every provider and every state of the world.
\<close>

theorem version_forwarded:
  assumes "fst (provider ''aiCode'' w) = Inr v"
  shows "fst (import_aicode provider \<lparr>world = w, sys_modules = None, requests = ms\<rparr>) = None \<and>
    read_version (snd (import_aicode provider \<lparr>world = w, sys_modules = None, requests = ms\<rparr>))
      = Some (Str v)"
proof -
  obtain w' where call: "provider ''aiCode'' w = (Inr v, w')"
    using assms by (cases "provider ''aiCode'' w") simp
  have body: "lookup (fst (snd (aicode_module provider (fresh, ms, w)))) ''__version__'' = Some (Str v)"
    using call by (simp add: aicode_module_returns [of provider w v w' fresh ms] lookup_def)
  show ?thesis
    using call body
    by (simp add: import_fresh_returns [of provider w v w' ms] read_version_def read_attr_def)
qed

text \<open>
  The scenario of the spec: the distribution \<open>aiCode\<close> is installed with recorded
  version \<open>1.2.3\<close>.
\<close>

theorem version_forwarded_witness:
  "fst (version ''aiCode'' [(''aiCode'', ''1.2.3'')]) = Inr ''1.2.3'' \<and>
   fst (import_aicode version
       \<lparr>world = [(''aiCode'', ''1.2.3'')], sys_modules = None, requests = []\<rparr>) = None \<and>
   read_version (snd (import_aicode version
       \<lparr>world = [(''aiCode'', ''1.2.3'')], sys_modules = None, requests = []\<rparr>))
     = Some (Str ''1.2.3'')"
proof -
  have found: "fst (version ''aiCode'' [(''aiCode'', ''1.2.3'')]) = Inr ''1.2.3''"
    by (simp add: version_defs)
  from version_forwarded [of version "[(''aiCode'', ''1.2.3'')]" "''1.2.3''" "[]"] found
  show ?thesis by simp
qed

text \<open>
  C2. Whenever the provider's lookup of \<open>aiCode\<close> raises an exception \<open>e\<close>, importing
  the package raises that same \<open>e\<close> (nothing is caught or translated), no module is
  cached, so there is no version constant to read, and the module body never assigned
  \<open>__version__\<close>: the name is as the import system left it.
\<close>

theorem not_found_propagates:
  assumes "fst (provider ''aiCode'' w) = Inl e"
  shows "fst (import_aicode provider \<lparr>world = w, sys_modules = None, requests = ms\<rparr>) = Some e \<and>
    sys_modules (snd (import_aicode provider \<lparr>world = w, sys_modules = None, requests = ms\<rparr>))
      = None \<and>
    read_version (snd (import_aicode provider \<lparr>world = w, sys_modules = None, requests = ms\<rparr>))
      = None \<and>
    lookup (fst (snd (aicode_module provider (g, ms, w)))) ''__version__'' = lookup g ''__version__''"
proof -
  obtain w' where call: "provider ''aiCode'' w = (Inl e, w')"
    using assms by (cases "provider ''aiCode'' w") simp
  have "lookup (fst (snd (aicode_module provider (g, ms, w)))) ''__version__'' = lookup g ''__version__''"
    using call by (simp add: aicode_module_raises [of provider w e w' g ms] lookup_def)
  then show ?thesis
    using call
    by (simp add: import_fresh_raises [of provider w e w' ms] read_version_def read_attr_def)
qed

text \<open>
  The scenario of the spec: no installed distribution answers to \<open>aiCode\<close>; the
  provider's error is \<open>PackageNotFoundError\<close> for the name asked.
\<close>

theorem not_found_propagates_witness:
  "fst (version ''aiCode'' [(''requests'', ''2.31.0'')]) = Inl (PackageNotFoundError ''aiCode'') \<and>
   fst (import_aicode version
       \<lparr>world = [(''requests'', ''2.31.0'')], sys_modules = None, requests = []\<rparr>)
     = Some (PackageNotFoundError ''aiCode'') \<and>
   read_version (snd (import_aicode version
       \<lparr>world = [(''requests'', ''2.31.0'')], sys_modules = None, requests = []\<rparr>)) = None"
proof -
  have missing: "fst (version ''aiCode'' [(''requests'', ''2.31.0'')])
      = Inl (PackageNotFoundError ''aiCode'')"
    by (simp add: version_defs)
  from not_found_propagates [of version "[(''requests'', ''2.31.0'')]"
      "PackageNotFoundError ''aiCode''" "[]"] missing
  show ?thesis by simp
qed

text \<open>
  C3. After the module body, \<open>__all__\<close> is the tuple with the single element
  \<open>'__version__'\<close>, whatever the provider did and whatever the namespace held before.
\<close>

theorem all_is_version_only:
  "lookup (fst (snd (aicode_module provider (g, ms, w)))) ''__all__''
     = Some (Tuple [Str ''__version__''])"
proof (cases rule: provider_cases [of provider w])
  case (returns v w')
  then show ?thesis by (simp add: aicode_module_returns [of provider w v w' g ms] lookup_def)
next
  case (raises e w')
  then show ?thesis by (simp add: aicode_module_raises [of provider w e w' g ms] lookup_def)
qed

text \<open>
  C4 as stated does not hold: the package has no operation \<open>get_version\<close>, and no
  operation of it takes a distribution name. After a successful import the module has no
  attribute of that name; with \<open>requests\<close> installed beside \<open>aiCode\<close> the only version
  the package yields is that of \<open>aiCode\<close>, and with \<open>requests\<close> alone the import fails
  for \<open>aiCode\<close>.
\<close>

theorem get_version_counterexample:
  "read_attr ''get_version'' (snd (import_aicode version
      \<lparr>world = [(''aiCode'', ''1.2.3''), (''requests'', ''2.31.0'')], sys_modules = None,
         requests = []\<rparr>)) = None \<and>
   read_version (snd (import_aicode version
      \<lparr>world = [(''aiCode'', ''1.2.3''), (''requests'', ''2.31.0'')], sys_modules = None,
         requests = []\<rparr>)) = Some (Str ''1.2.3'') \<and>
   fst (import_aicode version
      \<lparr>world = [(''requests'', ''2.31.0'')], sys_modules = None, requests = []\<rparr>)
     = Some (PackageNotFoundError ''aiCode'')"
  by (simp add: import_aicode_def body_defs version_defs read_version_def read_attr_def)

text \<open>
  C4, amended. The operation from a distribution name to its version string is the
  metadata provider's \<open>version(distribution_name)\<close>. The module imports it, which binds
  it in the module namespace under the name \<open>version\<close> (the export list \<open>__all__\<close> holds
  \<open>__version__\<close> only, and no name \<open>get_version\<close> is bound), and calls it once, with the
  fixed name \<open>aiCode\<close>: the string it returns is bound to \<open>__version__\<close>, the exception
  it raises is the module's.
\<close>

theorem version_accessor_operation:
  "lookup (fst (snd (aicode_module provider (g, ms, w)))) ''version''
     = Some (Imported ''importlib.metadata'' ''version'') \<and>
   lookup (fst (snd (aicode_module provider (g, ms, w)))) ''get_version'' = lookup g ''get_version'' \<and>
   lookup (fst (snd (aicode_module provider (g, ms, w)))) ''__all__''
     = Some (Tuple [Str ''__version__'']) \<and>
   snd (snd (snd (aicode_module (logged provider) (g, ms, (w, [])))))
     = (snd (provider ''aiCode'' w), [''aiCode'']) \<and>
   (case fst (provider ''aiCode'' w) of
      Inr v \<Rightarrow> fst (aicode_module provider (g, ms, w)) = None \<and>
        lookup (fst (snd (aicode_module provider (g, ms, w)))) ''__version__'' = Some (Str v)
    | Inl e \<Rightarrow> fst (aicode_module provider (g, ms, w)) = Some e)"
proof -
  have log: "snd (snd (snd (aicode_module (logged provider) (g, ms, (w, []))))) =
      (snd (provider ''aiCode'' w), [''aiCode''])"
    by (simp add: aicode_module_world logged_call)
  show ?thesis
  proof (cases rule: provider_cases [of provider w])
    case (returns v w')
    with log show ?thesis
      by (simp add: aicode_module_returns [of provider w v w' g ms] lookup_def)
  next
    case (raises e w')
    with log show ?thesis
      by (simp add: aicode_module_raises [of provider w e w' g ms] lookup_def)
  qed
qed

text \<open>
  C5. Once an import has succeeded, so that \<open>__version__\<close> is bound, nothing that
  happens later in the process (further imports, reads of the constant, changes of the
  installed metadata from outside) changes the cached module: every later read returns
  what a read returned right after the import, and the package does nothing outside
  itself any more (no further lookup, no further request to the import system).
\<close>

theorem version_never_reassigned:
  assumes "import_aicode provider p0 = (None, p)"
  shows "sys_modules (run provider es p) = sys_modules p \<and>
    read_version (run provider es p) = read_version p \<and>
    (\<forall>r \<in> set (reads provider es p). r = read_version p) \<and>
    world (run provider es p) = externals es (world p) \<and>
    requests (run provider es p) = requests p"
proof -
  obtain g where loaded: "sys_modules p = Some g"
    using import_ok_loaded [OF assms] by blast
  have kept: "sys_modules (run provider es p) = Some g"
    and world: "world (run provider es p) = externals es (world p)"
    and asked: "requests (run provider es p) = requests p"
    using run_loaded [OF loaded, of provider es] by simp_all
  have now: "read_version p = lookup g ''__version__''"
    using loaded by (simp add: read_version_def read_attr_def)
  have later: "read_version (run provider es p) = lookup g ''__version__''"
    using kept by (simp add: read_version_def read_attr_def)
  have "\<forall>r \<in> set (reads provider es p). r = lookup g ''__version__''"
    using reads_loaded [OF loaded, of provider es] by blast
  with loaded kept world asked now later show ?thesis by simp
qed

text \<open>
  \<open>aiCode 1.2.3\<close> is imported; then the constant is read, \<open>aiCode\<close> is upgraded to
  \<open>2.0.0\<close> on disk, the package is imported again and the constant is read again: it is
  still \<open>1.2.3\<close>.
\<close>

theorem version_never_reassigned_witness:
  "fst (import_aicode version
     \<lparr>world = [(''aiCode'', ''1.2.3'')], sys_modules = None, requests = []\<rparr>) = None \<and>
   read_version (run version
     [ReadVersion, External (\<lambda>dists. [(''aiCode'', ''2.0.0'')]), Import, ReadVersion]
     (snd (import_aicode version
       \<lparr>world = [(''aiCode'', ''1.2.3'')], sys_modules = None, requests = []\<rparr>)))
     = Some (Str ''1.2.3'') \<and>
   world (run version
     [ReadVersion, External (\<lambda>dists. [(''aiCode'', ''2.0.0'')]), Import, ReadVersion]
     (snd (import_aicode version
       \<lparr>world = [(''aiCode'', ''1.2.3'')], sys_modules = None, requests = []\<rparr>)))
     = [(''aiCode'', ''2.0.0'')] \<and>
   reads version
     [ReadVersion, External (\<lambda>dists. [(''aiCode'', ''2.0.0'')]), Import, ReadVersion]
     (snd (import_aicode version
       \<lparr>world = [(''aiCode'', ''1.2.3'')], sys_modules = None, requests = []\<rparr>))
     = [Some (Str ''1.2.3''), Some (Str ''1.2.3'')]"
proof -
  let ?start = "\<lparr>world = [(''aiCode'', ''1.2.3'')], sys_modules = None, requests = []\<rparr>"
  let ?loaded = "snd (import_aicode version ?start)"
  let ?es = "[ReadVersion, External (\<lambda>dists. [(''aiCode'', ''2.0.0'')]), Import, ReadVersion]"
  have imported: "fst (import_aicode version ?start) = None"
    by (simp add: import_aicode_def body_defs version_defs)
  then have ok: "import_aicode version ?start = (None, ?loaded)"
    by (simp add: prod_eq_iff)
  have first: "read_version ?loaded = Some (Str ''1.2.3'')"
    by (simp add: import_aicode_def body_defs version_defs read_version_def read_attr_def)
  have w0: "world ?loaded = [(''aiCode'', ''1.2.3'')]"
    by (simp add: import_aicode_def body_defs version_defs)
  note stable = version_never_reassigned [OF ok, of ?es]
  from stable have "read_version (run version ?es ?loaded) = read_version ?loaded"
    by blast
  with first have later: "read_version (run version ?es ?loaded) = Some (Str ''1.2.3'')"
    by (simp only:)
  from stable have "world (run version ?es ?loaded) = externals ?es (world ?loaded)"
    by blast
  also have "\<dots> = [(''aiCode'', ''2.0.0'')]"
    unfolding w0 by simp
  finally have upgraded: "world (run version ?es ?loaded) = [(''aiCode'', ''2.0.0'')]" .
  have "reads version ?es ?loaded = [Some (Str ''1.2.3''), Some (Str ''1.2.3'')]"
    by (simp add: import_aicode_def body_defs version_defs read_version_def read_attr_def)
  with imported later upgraded show ?thesis
    by (intro conjI)
qed

text \<open>
  C6. One execution of the module body makes exactly one query: what it does to the world
  is what one call of the provider for \<open>aiCode\<close> does, and with a provider that logs its
  queries the log grows by exactly one entry, whether the call returns or raises. The query
  is made by the body; reading the constant, any number of times, changes nothing in the
  process.
\<close>

theorem lookup_exactly_once:
  "snd (snd (snd (aicode_module provider (g, ms, w)))) = snd (provider ''aiCode'' w) \<and>
   snd (snd (snd (snd (aicode_module (logged provider) (g, ms, (w, log)))))) = log @ [''aiCode''] \<and>
   length (snd (snd (snd (snd (aicode_module (logged provider) (g, ms, (w, log)))))))
     = Suc (length log) \<and>
   run (logged provider) (replicate n ReadVersion) p = p"
proof -
  have "snd (snd (snd (aicode_module (logged provider) (g, ms, (w, log))))) =
      (snd (provider ''aiCode'' w), log @ [''aiCode''])"
    by (simp add: aicode_module_world logged_call)
  moreover have "run (logged provider) (replicate n ReadVersion) p = p"
    by (induction n) simp_all
  ultimately show ?thesis
    by (simp add: aicode_module_world)
qed




text \<open>
  C8. Two runs of the module body, from the same namespace, in which the provider returns
  the same result for \<open>aiCode\<close> (whatever else differs: the provider, the states of the
  world, the requests made before) end alike: the same exception or none, and the same
  namespace, so the same \<open>__version__\<close>. So do two first imports: they raise the same or
  cache the same module.
\<close>

theorem init_deterministic:
  assumes "fst (provider ''aiCode'' w) = fst (provider' ''aiCode'' w')"
  shows "fst (aicode_module provider (g, ms, w)) = fst (aicode_module provider' (g, ms', w')) \<and>
    fst (snd (aicode_module provider (g, ms, w)))
      = fst (snd (aicode_module provider' (g, ms', w'))) \<and>
    fst (import_aicode provider \<lparr>world = w, sys_modules = None, requests = ms\<rparr>)
      = fst (import_aicode provider' \<lparr>world = w', sys_modules = None, requests = ms'\<rparr>) \<and>
    sys_modules (snd (import_aicode provider \<lparr>world = w, sys_modules = None, requests = ms\<rparr>))
      = sys_modules (snd (import_aicode provider'
          \<lparr>world = w', sys_modules = None, requests = ms'\<rparr>))"
proof -
  from assms aicode_module_depends [of provider w provider' w' g ms ms']
  have run: "fst (aicode_module provider (g, ms, w)) = fst (aicode_module provider' (g, ms', w'))"
    and left: "fst (snd (aicode_module provider (g, ms, w)))
      = fst (snd (aicode_module provider' (g, ms', w')))"
    by simp_all
  from assms aicode_module_depends [of provider w provider' w' fresh ms ms']
  have outcome: "fst (aicode_module provider (fresh, ms, w))
      = fst (aicode_module provider' (fresh, ms', w'))"
    and built: "fst (snd (aicode_module provider (fresh, ms, w)))
      = fst (snd (aicode_module provider' (fresh, ms', w')))"
    by simp_all
  have raised: "fst (import_aicode provider \<lparr>world = w, sys_modules = None, requests = ms\<rparr>)
      = fst (import_aicode provider' \<lparr>world = w', sys_modules = None, requests = ms'\<rparr>)"
    unfolding import_fresh outcome by (rule refl)
  have cached:
    "sys_modules (snd (import_aicode provider \<lparr>world = w, sys_modules = None, requests = ms\<rparr>))
      = sys_modules (snd (import_aicode provider'
          \<lparr>world = w', sys_modules = None, requests = ms'\<rparr>))"
    unfolding import_fresh outcome built by (rule refl)
  from run left raised cached show ?thesis by (intro conjI)
qed

text \<open>
  Two sets of installed distributions that agree on \<open>aiCode\<close>.
\<close>

theorem init_deterministic_witness:
  "fst (version ''aiCode'' [(''aiCode'', ''1.2.3'')])
     = fst (version ''aiCode'' [(''requests'', ''2.31.0''), (''aiCode'', ''1.2.3'')]) \<and>
   fst (aicode_module version (fresh, [], [(''aiCode'', ''1.2.3'')]))
     = fst (aicode_module version
         (fresh, [], [(''requests'', ''2.31.0''), (''aiCode'', ''1.2.3'')])) \<and>
   fst (snd (aicode_module version (fresh, [], [(''aiCode'', ''1.2.3'')])))
     = fst (snd (aicode_module version
         (fresh, [], [(''requests'', ''2.31.0''), (''aiCode'', ''1.2.3'')])))"
proof -
  have same: "fst (version ''aiCode'' [(''aiCode'', ''1.2.3'')])
     = fst (version ''aiCode'' [(''requests'', ''2.31.0''), (''aiCode'', ''1.2.3'')])"
    by (simp add: version_defs)
  note both = init_deterministic [of version "[(''aiCode'', ''1.2.3'')]" version
      "[(''requests'', ''2.31.0''), (''aiCode'', ''1.2.3'')]" fresh "[]" "[]", OF same]
  from both
  have "fst (aicode_module version (fresh, [], [(''aiCode'', ''1.2.3'')]))
     = fst (aicode_module version
         (fresh, [], [(''requests'', ''2.31.0''), (''aiCode'', ''1.2.3'')]))"
    by (rule conjunct1)
  moreover from both
  have "fst (snd (aicode_module version (fresh, [], [(''aiCode'', ''1.2.3'')])))
     = fst (snd (aicode_module version
         (fresh, [], [(''requests'', ''2.31.0''), (''aiCode'', ''1.2.3'')])))"
    by (rule conjunct2 [THEN conjunct1])
  ultimately show ?thesis using same by (intro conjI)
qed

text \<open>
  C9 as stated does not hold in its last clause: the outcome does not depend only on what
  is recorded under exactly the key \<open>aiCode\<close>. The provider compares names after
  normalisation, so the query \<open>aiCode\<close> is answered by a distribution recorded as
  \<open>aicode\<close>. Of two sets of installed distributions with nothing recorded under exactly
  \<open>aiCode\<close>, one makes the import succeed and the other makes it raise.
\<close>

theorem exact_key_counterexample:
  "map_of [(''aicode'', ''0.1.0'')] ''aiCode'' = None \<and>
   map_of ([] :: (string \<times> string) list) ''aiCode'' = None \<and>
   fst (aicode_module version (fresh, [], [(''aicode'', ''0.1.0'')])) = None \<and>
   lookup (fst (snd (aicode_module version (fresh, [], [(''aicode'', ''0.1.0'')])))) ''__version__''
     = Some (Str ''0.1.0'') \<and>
   fst (aicode_module version (fresh, [], [])) = Some (PackageNotFoundError ''aiCode'')"
  by (simp add: body_defs version_defs)

text \<open>
  C9, amended. The name the module asks the provider for is the literal \<open>aiCode\<close>, for
  every provider, namespace and world (no input chooses it), and it is not the import name
  \<open>aicode\<close>. So the outcome of the module body and the namespace it leaves depend only on
  the provider's answer to the query \<open>aiCode\<close>. Which installed distribution gives that
  answer is the provider's matching of names: after normalisation, the first distribution
  on the search path whose normalised name is \<open>aicode\<close>, however its name is written.
\<close>

theorem queried_name_is_literal:
  "snd (snd (snd (snd (aicode_module (logged provider) (g, ms, (w, log)))))) = log @ [''aiCode''] \<and>
   snd (snd (snd (snd (aicode_module (logged provider) (g, ms, (w, log)))))) \<noteq> log @ [''aicode''] \<and>
   (fst (provider ''aiCode'' w) = fst (provider' ''aiCode'' w') \<longrightarrow>
      fst (aicode_module provider (g, ms, w)) = fst (aicode_module provider' (g, ms, w')) \<and>
      fst (snd (aicode_module provider (g, ms, w)))
        = fst (snd (aicode_module provider' (g, ms, w')))) \<and>
   (map_option snd (find (\<lambda>(name, v). normalize_name name = ''aicode'') dists)
      = map_option snd (find (\<lambda>(name, v). normalize_name name = ''aicode'') dists') \<longrightarrow>
      fst (aicode_module version (g, ms, dists)) = fst (aicode_module version (g, ms, dists')) \<and>
      fst (snd (aicode_module version (g, ms, dists)))
        = fst (snd (aicode_module version (g, ms, dists'))))"
proof -
  have log: "snd (snd (snd (snd (aicode_module (logged provider) (g, ms, (w, log))))))
      = log @ [''aiCode'']"
    by (simp add: aicode_module_world logged_call)
  have answer: "fst (aicode_module provider (g, ms, w)) = fst (aicode_module provider' (g, ms, w')) \<and>
      fst (snd (aicode_module provider (g, ms, w)))
        = fst (snd (aicode_module provider' (g, ms, w')))"
    if "fst (provider ''aiCode'' w) = fst (provider' ''aiCode'' w')"
    using that by (rule aicode_module_depends [of provider w provider' w' g ms ms])
  have "fst (aicode_module version (g, ms, dists)) = fst (aicode_module version (g, ms, dists')) \<and>
      fst (snd (aicode_module version (g, ms, dists)))
        = fst (snd (aicode_module version (g, ms, dists')))"
    if "map_option snd (find (\<lambda>(name, v). normalize_name name = ''aicode'') dists)
      = map_option snd (find (\<lambda>(name, v). normalize_name name = ''aicode'') dists')"
  proof -
    have "fst (version ''aiCode'' dists) = fst (version ''aiCode'' dists')"
      unfolding version_aiCode that by (rule refl)
    then show ?thesis by (rule aicode_module_depends [of version dists version dists' g ms ms])
  qed
  with log answer show ?thesis by simp
qed

text \<open>
  The distribution is recorded as \<open>aicode\<close> on one search path and as \<open>AICODE\<close>, behind
  another distribution, on the other, with the same version: the module ends alike.
\<close>

theorem queried_name_is_literal_witness:
  "map_option snd (find (\<lambda>(name, v). normalize_name name = ''aicode'') [(''aicode'', ''1.2.3'')])
     = map_option snd (find (\<lambda>(name, v). normalize_name name = ''aicode'')
         [(''requests'', ''2.31.0''), (''AICODE'', ''1.2.3'')]) \<and>
   fst (version ''aiCode'' [(''aicode'', ''1.2.3'')])
     = fst (version ''aiCode'' [(''requests'', ''2.31.0''), (''AICODE'', ''1.2.3'')]) \<and>
   fst (aicode_module version (fresh, [], [(''aicode'', ''1.2.3'')]))
     = fst (aicode_module version (fresh, [], [(''requests'', ''2.31.0''), (''AICODE'', ''1.2.3'')])) \<and>
   fst (snd (aicode_module version (fresh, [], [(''aicode'', ''1.2.3'')])))
     = fst (snd (aicode_module version
         (fresh, [], [(''requests'', ''2.31.0''), (''AICODE'', ''1.2.3'')])))"
proof -
  let ?one = "[(''aicode'', ''1.2.3'')]"
  let ?two = "[(''requests'', ''2.31.0''), (''AICODE'', ''1.2.3'')]"
  have match: "map_option snd (find (\<lambda>(name, v). normalize_name name = ''aicode'') ?one)
     = map_option snd (find (\<lambda>(name, v). normalize_name name = ''aicode'') ?two)"
    by (simp add: normalize_name_def is_sep_def lower_def)
  have same: "fst (version ''aiCode'' ?one) = fst (version ''aiCode'' ?two)"
    by (simp add: version_defs)
  note literal = queried_name_is_literal [of version fresh "[]" ?one "[]" version ?two ?one ?two]
  from literal have "fst (version ''aiCode'' ?one) = fst (version ''aiCode'' ?two) \<longrightarrow>
      fst (aicode_module version (fresh, [], ?one)) = fst (aicode_module version (fresh, [], ?two)) \<and>
      fst (snd (aicode_module version (fresh, [], ?one)))
        = fst (snd (aicode_module version (fresh, [], ?two)))"
    by (rule conjunct2 [THEN conjunct2, THEN conjunct1])
  from this same
  have "fst (aicode_module version (fresh, [], ?one)) = fst (aicode_module version (fresh, [], ?two)) \<and>
      fst (snd (aicode_module version (fresh, [], ?one)))
        = fst (snd (aicode_module version (fresh, [], ?two)))"
    by (rule mp)
  then have "fst (aicode_module version (fresh, [], ?one)) = fst (aicode_module version (fresh, [], ?two))"
    and "fst (snd (aicode_module version (fresh, [], ?one)))
        = fst (snd (aicode_module version (fresh, [], ?two)))"
    by (rule conjunct1, rule conjunct2)
  with match same show ?thesis by (intro conjI)
qed

text \<open>
  C10. A first import raises exactly when the provider's lookup of \<open>aiCode\<close> raises;
  and when the import raises nothing, \<open>__version__\<close> is bound to a \<open>str\<close> (the one the
  provider returned) and \<open>__all__\<close> to the tuple \<open>('__version__',)\<close>.
\<close>

theorem import_raises_iff_lookup_raises:
  "(\<exists>e. fst (import_aicode provider \<lparr>world = w, sys_modules = None, requests = ms\<rparr>) = Some e)
     = (\<exists>e. fst (provider ''aiCode'' w) = Inl e) \<and>
   (fst (import_aicode provider \<lparr>world = w, sys_modules = None, requests = ms\<rparr>) = None \<longrightarrow>
      (\<exists>v. fst (provider ''aiCode'' w) = Inr v \<and>
        read_version (snd (import_aicode provider
          \<lparr>world = w, sys_modules = None, requests = ms\<rparr>)) = Some (Str v)) \<and>
      read_attr ''__all__'' (snd (import_aicode provider
          \<lparr>world = w, sys_modules = None, requests = ms\<rparr>))
        = Some (Tuple [Str ''__version__'']))"
proof (cases rule: provider_cases [of provider w])
  case (returns v w')
  then show ?thesis
    by (simp add: import_fresh_returns [of provider w v w' ms]
        aicode_module_returns [of provider w v w' fresh ms] read_version_def read_attr_def
        lookup_def)
next
  case (raises e w')
  then show ?thesis
    by (simp add: import_fresh_raises [of provider w e w' ms])
qed

text \<open>
  \<open>aiCode 0.4.0\<close> is installed: the import succeeds and both names are bound.
\<close>

theorem import_raises_iff_lookup_raises_witness:
  "fst (import_aicode version
     \<lparr>world = [(''aiCode'', ''0.4.0'')], sys_modules = None, requests = []\<rparr>) = None \<and>
   read_version (snd (import_aicode version
     \<lparr>world = [(''aiCode'', ''0.4.0'')], sys_modules = None, requests = []\<rparr>))
     = Some (Str ''0.4.0'') \<and>
   read_attr ''__all__'' (snd (import_aicode version
     \<lparr>world = [(''aiCode'', ''0.4.0'')], sys_modules = None, requests = []\<rparr>))
     = Some (Tuple [Str ''__version__''])"
proof -
  let ?start = "\<lparr>world = [(''aiCode'', ''0.4.0'')], sys_modules = None, requests = []\<rparr>"
  let ?after = "snd (import_aicode version ?start)"
  have ok: "fst (import_aicode version ?start) = None"
    by (simp add: import_aicode_def body_defs version_defs)
  have call: "fst (version ''aiCode'' [(''aiCode'', ''0.4.0'')]) = Inr ''0.4.0''"
    by (simp add: version_defs)
  from import_raises_iff_lookup_raises [of version "[(''aiCode'', ''0.4.0'')]" "[]"]
  have "fst (import_aicode version ?start) = None \<longrightarrow>
      (\<exists>v. fst (version ''aiCode'' [(''aiCode'', ''0.4.0'')]) = Inr v \<and>
        read_version ?after = Some (Str v)) \<and>
      read_attr ''__all__'' ?after = Some (Tuple [Str ''__version__''])"
    by (rule conjunct2)
  from this ok
  have bound: "(\<exists>v. fst (version ''aiCode'' [(''aiCode'', ''0.4.0'')]) = Inr v \<and>
        read_version ?after = Some (Str v)) \<and>
      read_attr ''__all__'' ?after = Some (Tuple [Str ''__version__''])"
    by (rule mp)
  then obtain v where "fst (version ''aiCode'' [(''aiCode'', ''0.4.0'')]) = Inr v"
    and "read_version ?after = Some (Str v)"
    by (elim conjE exE)
  with call have read: "read_version ?after = Some (Str ''0.4.0'')"
    by simp
  from bound have "read_attr ''__all__'' ?after = Some (Tuple [Str ''__version__''])"
    by (rule conjunct2)
  with ok read show ?thesis by (intro conjI)
qed

end
